theory Spec2Isabelle
  imports Main "HOL-Library.AList" "HOL-Library.Sublist"
begin

section \<open>The cached range query of \<^verbatim>\<open>FileTest.py\<close>\<close>

text \<open>
  \<^verbatim>\<open>FileTest.py\<close> has three public functions: \<^verbatim>\<open>query_data_with_cache\<close>,
  \<^verbatim>\<open>clear_cache\<close> and \<^verbatim>\<open>list_cache_files\<close>. They work on one directory of the
  filesystem, through \<^verbatim>\<open>pathlib\<close> and \<^verbatim>\<open>pandas\<close>. The model passes the state of that
  directory explicitly, returns every exception as a value, and records the calls to the
  collaborators and the log lines in a trace.
\<close>

subsection \<open>Strings\<close>

text \<open>
  A Python \<^verbatim>\<open>str\<close> is a sequence of Unicode code points, so it is a list of naturals
  here (an Isabelle \<^typ>\<open>char\<close> is a byte). \<open>str\<close> reads an ASCII literal.
\<close>

type_synonym pystr = "nat list"

definition str :: "string \<Rightarrow> pystr" where
  "str s = map of_char s"

abbreviation chr :: "char \<Rightarrow> nat" where
  "chr c \<equiv> of_char c"

type_synonym bytes = string

subsection \<open>Tables\<close>

text \<open>
  A \<^verbatim>\<open>DataFrame\<close> is held as its column names and its rows. \<^verbatim>\<open>df.empty\<close> is true
  when one of the two axes has length zero.
\<close>

datatype cell = Num int | Txt pystr | Missing

record table =
  columns :: "pystr list"
  rows :: "cell list list"

definition df_empty :: "table \<Rightarrow> bool" where
  "df_empty df = (columns df = [] \<or> rows df = [])"

subsection \<open>Exceptions, the environment, the trace\<close>

text \<open>
  A value of \<open>exn\<close> stands for an instance of \<^verbatim>\<open>Exception\<close>: that is what every
  \<^verbatim>\<open>except Exception\<close> clause of the source catches. A function that may raise returns
  \<open>exn + 'a\<close>, with \<open>Inl\<close> for the exception.
\<close>

datatype exn =
    FileNotFoundError
  | FileExistsError
  | IsADirectoryError
  | PermissionError
  | OSError pystr
  | ValueError
  | Failure pystr

text \<open>
  What \<^verbatim>\<open>df.to_excel\<close> did: it wrote the serialised table, or it raised, leaving the
  target untouched (\<open>None\<close>) or holding what it had written so far.
\<close>

datatype write_result = Written bytes | Write_failed exn "bytes option"

text \<open>
  The collaborators that are not part of the file are parameters of the model:
  \<^item> \<open>unicode_alnum\<close>: \<^verbatim>\<open>str.isalnum\<close> on the code points beyond ASCII (the Unicode
    character database);
  \<^item> \<open>read_excel\<close>: \<^verbatim>\<open>pd.read_excel\<close> on the content of a regular file;
  \<^item> \<open>to_excel\<close>: \<^verbatim>\<open>DataFrame.to_excel(path, index=False)\<close> on a path that is not a
    directory;
  \<^item> \<open>query_data_from_source\<close>: the source query. The function of that name in the file
    is a stand-in that draws random rows, to be replaced by the real data source, so the
    model takes it as it comes: it raises, or returns \<^verbatim>\<open>None\<close>, or returns a table;
  \<^item> \<open>unlink_error\<close>: the error, if any, that the operating system answers to the
    removal of a regular file of that name (permissions);
  \<^item> \<open>path_error\<close>: the error, if any, that the operating system answers to
    \<^verbatim>\<open>stat\<close> on the entry of that name in the cache directory and that \<^verbatim>\<open>Path.exists\<close>
    does not turn into \<^verbatim>\<open>False\<close>: a name of more than 255 bytes, a directory that may
    not be searched. \<^verbatim>\<open>Path.exists\<close> swallows only the errors that say that the entry
    is not there.
\<close>

record env =
  unicode_alnum :: "nat \<Rightarrow> bool"
  read_excel :: "bytes \<Rightarrow> exn + table"
  to_excel :: "table \<Rightarrow> write_result"
  query_data_from_source :: "pystr \<Rightarrow> pystr \<Rightarrow> exn + table option"
  unlink_error :: "pystr \<Rightarrow> exn option"
  path_error :: "pystr \<Rightarrow> exn option"

text \<open>The messages of the \<^verbatim>\<open>logger\<close> calls, one constructor for each call site.\<close>

datatype level = INFO | WARNING | ERROR

datatype msg =
    Reading_cache pystr
  | Loaded_from_cache table
  | Read_failed exn
  | Querying pystr pystr
  | Cached_to pystr
  | Save_failed exn
  | Empty_result
  | Query_failed exn
  | No_cache_dir
  | Deleted pystr
  | Delete_failed pystr exn

text \<open>
  The trace of a call: its log lines and its calls to \<^verbatim>\<open>pd.read_excel\<close>, to the source
  query, to \<^verbatim>\<open>to_excel\<close> and to \<^verbatim>\<open>unlink\<close>, in the order of the execution. The file
  names are relative to the cache directory.
\<close>

datatype event =
    Log level msg
  | Read_excel pystr
  | Source pystr pystr
  | To_excel pystr table
  | Unlink pystr

subsection \<open>The cache directory\<close>

text \<open>
  The state is what the filesystem holds at \<^verbatim>\<open>Path(cache_dir)\<close>: nothing, below a
  parent directory that is missing too (\<open>Orphan\<close>), that exists and takes new entries
  (\<open>Absent\<close>) or that exists and may not be written (\<open>Readonly_parent\<close>); a path on
  which \<^verbatim>\<open>stat\<close> fails with an error that \<^verbatim>\<open>Path.exists\<close> lets through, such as a
  parent that may not be searched or a name that is too long (\<open>Inaccessible\<close>);
  something that is not a directory (\<open>Regular_file\<close>); or a directory with its entries,
  in the order in which the operating system lists them. An entry is a regular file with
  its content or a subdirectory.
\<close>

datatype node = File bytes | Subdir

datatype loc =
    Orphan
  | Absent
  | Readonly_parent
  | Inaccessible exn
  | Regular_file
  | Directory "(pystr \<times> node) list"

text \<open>
  \<^verbatim>\<open>cache_path.exists()\<close>: it answers, or it raises what \<^verbatim>\<open>stat\<close> raised.
\<close>

definition path_exists :: "loc \<Rightarrow> exn + bool" where
  "path_exists fs =
     (case fs of
        Orphan \<Rightarrow> Inr False
      | Absent \<Rightarrow> Inr False
      | Readonly_parent \<Rightarrow> Inr False
      | Inaccessible e \<Rightarrow> Inl e
      | Regular_file \<Rightarrow> Inr True
      | Directory es \<Rightarrow> Inr True)"

text \<open>
  \<^verbatim>\<open>cache_path.mkdir(exist_ok=True)\<close>: \<^verbatim>\<open>parents\<close> is left at \<^verbatim>\<open>False\<close>, so a missing
  parent raises; so does a parent that may not be written, and a path that cannot be
  examined; \<^verbatim>\<open>exist_ok\<close> accepts only a directory.
\<close>

definition mkdir :: "loc \<Rightarrow> exn + loc" where
  "mkdir fs =
     (case fs of
        Orphan \<Rightarrow> Inl FileNotFoundError
      | Absent \<Rightarrow> Inr (Directory [])
      | Readonly_parent \<Rightarrow> Inl PermissionError
      | Inaccessible e \<Rightarrow> Inl e
      | Regular_file \<Rightarrow> Inl FileExistsError
      | Directory es \<Rightarrow> Inr (Directory es))"

text \<open>The entry \<^verbatim>\<open>cache_path / name\<close>, if there is one.\<close>

definition lookup :: "loc \<Rightarrow> pystr \<Rightarrow> node option" where
  "lookup fs name = (case fs of Directory es \<Rightarrow> map_of es name | _ \<Rightarrow> None)"

definition store :: "loc \<Rightarrow> pystr \<Rightarrow> node \<Rightarrow> loc" where
  "store fs name n = (case fs of Directory es \<Rightarrow> Directory (AList.update name n es) | _ \<Rightarrow> fs)"

definition remove :: "loc \<Rightarrow> pystr \<Rightarrow> loc" where
  "remove fs name = (case fs of Directory es \<Rightarrow> Directory (AList.delete name es) | _ \<Rightarrow> fs)"

definition entries :: "loc \<Rightarrow> (pystr \<times> node) list" where
  "entries fs = (case fs of Directory es \<Rightarrow> es | _ \<Rightarrow> [])"

text \<open>
  \<^verbatim>\<open>file_path.exists()\<close> for the entry of that name: it raises what \<^verbatim>\<open>stat\<close> raised,
  unless the error says that the entry is not there.
\<close>

definition file_exists :: "env \<Rightarrow> loc \<Rightarrow> pystr \<Rightarrow> exn + bool" where
  "file_exists env fs name =
     (case path_error env name of
        Some e \<Rightarrow> Inl e
      | None \<Rightarrow> Inr (lookup fs name \<noteq> None))"

text \<open>\<^verbatim>\<open>pd.read_excel(file_path)\<close>\<close>

definition pd_read_excel :: "env \<Rightarrow> loc \<Rightarrow> pystr \<Rightarrow> exn + table" where
  "pd_read_excel env fs name =
     (case lookup fs name of
        None \<Rightarrow> Inl FileNotFoundError
      | Some Subdir \<Rightarrow> Inl IsADirectoryError
      | Some (File b) \<Rightarrow> read_excel env b)"

text \<open>
  \<^verbatim>\<open>df.to_excel(file_path, index=False)\<close>: the exception, if any, and the directory
  afterwards.
\<close>

definition df_to_excel :: "env \<Rightarrow> loc \<Rightarrow> pystr \<Rightarrow> table \<Rightarrow> exn option \<times> loc" where
  "df_to_excel env fs name df =
     (case lookup fs name of
        Some Subdir \<Rightarrow> (Some IsADirectoryError, fs)
      | _ \<Rightarrow>
         (case to_excel env df of
            Written b \<Rightarrow> (None, store fs name (File b))
          | Write_failed e None \<Rightarrow> (Some e, fs)
          | Write_failed e (Some b) \<Rightarrow> (Some e, store fs name (File b))))"

text \<open>\<^verbatim>\<open>file_path.unlink()\<close>\<close>

definition unlink :: "env \<Rightarrow> loc \<Rightarrow> pystr \<Rightarrow> exn + loc" where
  "unlink env fs name =
     (case lookup fs name of
        None \<Rightarrow> Inl FileNotFoundError
      | Some Subdir \<Rightarrow> Inl IsADirectoryError
      | Some (File b) \<Rightarrow>
         (case unlink_error env name of
            Some e \<Rightarrow> Inl e
          | None \<Rightarrow> Inr (remove fs name)))"

subsection \<open>The file name of a time range\<close>

text \<open>
  \<^verbatim>\<open>c.isalnum()\<close>: on ASCII, the digits and the letters; beyond, what the Unicode
  database says.
\<close>

definition isalnum :: "env \<Rightarrow> nat \<Rightarrow> bool" where
  "isalnum env c =
     (if c < 128 then
        (chr CHR ''0'' \<le> c \<and> c \<le> chr CHR ''9'') \<or>
        (chr CHR ''A'' \<le> c \<and> c \<le> chr CHR ''Z'') \<or>
        (chr CHR ''a'' \<le> c \<and> c \<le> chr CHR ''z'')
      else unicode_alnum env c)"

text \<open>
  \<^verbatim>\<open>"".join(c for c in t if c.isalnum() or c in (' ', '-', '_', '.'))\<close>, the value of
  \<^verbatim>\<open>safe_start_time\<close> and of \<^verbatim>\<open>safe_end_time\<close>.
\<close>

definition safe_time :: "env \<Rightarrow> pystr \<Rightarrow> pystr" where
  "safe_time env t =
     filter (\<lambda>c. isalnum env c \<or> c \<in> set [chr CHR '' '', chr CHR ''-'', chr CHR ''_'', chr CHR ''.'']) t"

text \<open>\<^verbatim>\<open>f"{safe_start_time}_{safe_end_time}.xlsx"\<close>\<close>

definition filename :: "env \<Rightarrow> pystr \<Rightarrow> pystr \<Rightarrow> pystr" where
  "filename env start_time end_time =
     safe_time env start_time @ str ''_'' @ safe_time env end_time @ str ''.xlsx''"

subsection \<open>\<^verbatim>\<open>query_data_with_cache\<close>\<close>

text \<open>
  The result of a call: what it returned (\<open>None\<close> for Python's \<^verbatim>\<open>None\<close>) or raised, the
  cache directory afterwards, and the trace.
\<close>

type_synonym query_result = "(exn + table option) \<times> loc \<times> event list"

text \<open>
  The second \<^verbatim>\<open>try\<close> block (lines 53 to 72): the source query and the write of the
  artifact. \<open>tr\<close> is the trace so far.
\<close>

definition run_query :: "env \<Rightarrow> loc \<Rightarrow> pystr \<Rightarrow> pystr \<Rightarrow> pystr \<Rightarrow> event list \<Rightarrow> query_result" where
  "run_query env cache_path start_time end_time file tr =
     (let tr1 = tr @ [Log INFO (Querying start_time end_time), Source start_time end_time] in
      case query_data_from_source env start_time end_time of
        Inl e \<Rightarrow> (Inr None, cache_path, tr1 @ [Log ERROR (Query_failed e)])
      | Inr None \<Rightarrow> (Inr None, cache_path, tr1 @ [Log WARNING Empty_result])
      | Inr (Some df) \<Rightarrow>
          if \<not> df_empty df then
            (case df_to_excel env cache_path file df of
               (None, fs') \<Rightarrow>
                 (Inr (Some df), fs', tr1 @ [To_excel file df, Log INFO (Cached_to file)])
             | (Some e, fs') \<Rightarrow>
                 (Inr (Some df), fs', tr1 @ [To_excel file df, Log ERROR (Save_failed e)]))
          else (Inr None, cache_path, tr1 @ [Log WARNING Empty_result]))"

text \<open>
  The whole function. The \<^verbatim>\<open>mkdir\<close> of line 33 and the \<^verbatim>\<open>file_path.exists()\<close> of
  line 42 stand outside every \<^verbatim>\<open>try\<close>, so what they raise leaves the function; line 42
  tests the existence before it looks at \<^verbatim>\<open>force_refresh\<close>.
\<close>

definition query_data_with_cache ::
    "env \<Rightarrow> loc \<Rightarrow> pystr \<Rightarrow> pystr \<Rightarrow> bool \<Rightarrow> query_result" where
  "query_data_with_cache env fs start_time end_time force_refresh =
     (case mkdir fs of
        Inl e \<Rightarrow> (Inl e, fs, [])
      | Inr cache_path \<Rightarrow>
         (let file = filename env start_time end_time in
          case file_exists env cache_path file of
            Inl e \<Rightarrow> (Inl e, cache_path, [])
          | Inr present \<Rightarrow>
             if present \<and> \<not> force_refresh then
               (case pd_read_excel env cache_path file of
                  Inr df \<Rightarrow>
                    (Inr (Some df), cache_path,
                     [Log INFO (Reading_cache file), Read_excel file,
                      Log INFO (Loaded_from_cache df)])
                | Inl e \<Rightarrow>
                    run_query env cache_path start_time end_time file
                      [Log INFO (Reading_cache file), Read_excel file, Log ERROR (Read_failed e)])
             else run_query env cache_path start_time end_time file []))"

subsection \<open>Glob patterns\<close>

text \<open>
  \<^verbatim>\<open>Path.glob\<close> matches the names of a directory against one segment of a pattern with
  \<^verbatim>\<open>fnmatch.translate\<close>, and the whole name has to match (on POSIX, with the case of the
  letters kept; names that start with a dot are matched like the others). The model is
  that of CPython 3.11 and 3.12. The
  translation reads the pattern from the left: \<^verbatim>\<open>*\<close> stands for any run of characters,
  \<^verbatim>\<open>?\<close> for one character, \<^verbatim>\<open>[...]\<close> for one character of a class, or one outside it
  when the class is negated; a \<^verbatim>\<open>[\<close> that no \<^verbatim>\<open>]\<close> closes, and every other character,
  stands for itself.
\<close>

datatype class_item = Single nat | Between nat nat

datatype glob_tok = Star | Any_char | Lit nat | Char_class bool "class_item list"

text \<open>
  The index \<^verbatim>\<open>j\<close> of the bracket that closes a class, in the text after the opening
  bracket: a \<^verbatim>\<open>!\<close> in the first place and a \<^verbatim>\<open>]\<close> right after are skipped before the
  search for it.
\<close>

definition class_end :: "pystr \<Rightarrow> nat option" where
  "class_end rest =
     (let j0 = (if 0 < length rest \<and> rest ! 0 = chr CHR ''!'' then 1 else 0);
          j1 = (if j0 < length rest \<and> rest ! j0 = chr CHR '']'' then j0 + 1 else j0);
          j = j1 + length (takeWhile (\<lambda>c. c \<noteq> chr CHR '']'') (drop j1 rest))
      in if j \<ge> length rest then None else Some j)"

text \<open>
  The text \<^verbatim>\<open>stuff\<close> between the brackets is cut into chunks at the hyphens that make a
  range. The \<^verbatim>\<open>while\<close> loop of \<^verbatim>\<open>translate\<close> looks for the next hyphen from an index
  \<^verbatim>\<open>k\<close>, which starts one place after the beginning (two when the text starts with
  \<^verbatim>\<open>!\<close>) and, after a hyphen, three places after it. \<open>split_chunks m acc s\<close> reads what is
  left of the text, \<open>m\<close> being the number of characters that cannot be such a hyphen yet
  and \<open>acc\<close> the chunk read so far, reversed; its last chunk is the one after the last
  hyphen.
\<close>

fun split_chunks :: "nat \<Rightarrow> pystr \<Rightarrow> pystr \<Rightarrow> pystr list" where
  "split_chunks m acc [] = [rev acc]"
| "split_chunks m acc (c # cs) =
     (if m = 0 \<and> c = chr CHR ''-'' then rev acc # split_chunks 2 [] cs
      else split_chunks (m - 1) (c # acc) cs)"

text \<open>
  \<^verbatim>\<open>if chunk: chunks.append(chunk) else: chunks[-1] += '-'\<close>: an empty last chunk is
  dropped and its hyphen goes to the chunk before, as a character.
\<close>

fun close_chunks :: "pystr list \<Rightarrow> pystr list" where
  "close_chunks [] = []"
| "close_chunks [c] = [c]"
| "close_chunks [c, []] = [c @ [chr CHR ''-'']]"
| "close_chunks (c # d # rest) = c # close_chunks (d # rest)"

text \<open>
  The loop that removes the empty ranges, from the last chunk to the first: where the
  last character of a chunk is greater than the first of the next one, both characters
  go and the two chunks become one. (The chunks it compares are never empty; the model
  leaves an empty one alone.)
\<close>

fun remove_empty :: "pystr list \<Rightarrow> pystr list" where
  "remove_empty [] = []"
| "remove_empty (c # rest) =
     (case remove_empty rest of
        [] \<Rightarrow> [c]
      | d # ds \<Rightarrow>
         if c \<noteq> [] \<and> d \<noteq> [] \<and> last c > hd d then (butlast c @ tl d) # ds
         else c # d # ds)"

text \<open>
  What \<^verbatim>\<open>translate\<close> hands to the regular expression: the characters of the chunks,
  each standing for itself (\<^verbatim>\<open>translate\<close> escapes them where needed), and between two
  chunks the hyphen that the regular expression reads as the sign of a range.
\<close>

datatype class_tok = Ch nat | Op

fun join_chunks :: "pystr list \<Rightarrow> class_tok list" where
  "join_chunks [] = []"
| "join_chunks [c] = map Ch c"
| "join_chunks (c # rest) = map Ch c @ Op # join_chunks rest"

definition class_stuff :: "pystr \<Rightarrow> class_tok list" where
  "class_stuff stuff =
     (if chr CHR ''-'' \<notin> set stuff then map Ch stuff
      else join_chunks (remove_empty (close_chunks
             (split_chunks (if hd stuff = chr CHR ''!'' then 2 else 1) [] stuff))))"

text \<open>
  The set of a regular expression, as \<^verbatim>\<open>re\<close> parses it from the left: an item followed
  by the sign of a range and by another item is a range; anything else is one character
  (the sign itself, where it stands first, is a hyphen).
\<close>

fun tok_char :: "class_tok \<Rightarrow> nat" where
  "tok_char (Ch c) = c"
| "tok_char Op = chr CHR ''-''"

fun class_items :: "class_tok list \<Rightarrow> class_item list" where
  "class_items (t # Op # u # rest) = Between (tok_char t) (tok_char u) # class_items rest"
| "class_items (t # rest) = Single (tok_char t) # class_items rest"
| "class_items [] = []"

fun in_item :: "nat \<Rightarrow> class_item \<Rightarrow> bool" where
  "in_item c (Single a) = (c = a)"
| "in_item c (Between lo hi) = (lo \<le> c \<and> c \<le> hi)"

text \<open>
  The class of a text between brackets. \<^verbatim>\<open>translate\<close> looks for the \<^verbatim>\<open>!\<close> of a negation
  after it has removed the empty ranges, so a \<^verbatim>\<open>!\<close> that comes to stand first by a
  removal negates too; nothing left is the class that accepts no character.
\<close>

definition char_class :: "pystr \<Rightarrow> glob_tok" where
  "char_class stuff =
     (case class_stuff stuff of
        [] \<Rightarrow> Char_class False []
      | t # others \<Rightarrow>
         if t = Ch (chr CHR ''!'') then Char_class True (class_items others)
         else Char_class False (class_items (t # others)))"

text \<open>\<^verbatim>\<open>fnmatch.translate\<close>, to a list of tokens in place of a regular expression.\<close>

fun translate :: "pystr \<Rightarrow> glob_tok list" where
  "translate [] = []"
| "translate (c # rest) =
     (if c = chr CHR ''*'' then Star # translate rest
      else if c = chr CHR ''?'' then Any_char # translate rest
      else if c = chr CHR ''['' then
        (case class_end rest of
           None \<Rightarrow> Lit c # translate rest
         | Some j \<Rightarrow> char_class (take j rest) # translate (drop (Suc j) rest))
      else Lit c # translate rest)"

text \<open>Whether a token that stands for one character accepts it.\<close>

fun accepts :: "glob_tok \<Rightarrow> nat \<Rightarrow> bool" where
  "accepts Any_char c = True"
| "accepts (Lit a) c = (c = a)"
| "accepts (Char_class negated items) c = (list_ex (in_item c) items \<noteq> negated)"
| "accepts Star c = True"

text \<open>\<^verbatim>\<open>re.fullmatch\<close> of the translated pattern on a name.\<close>

fun matches :: "glob_tok list \<Rightarrow> pystr \<Rightarrow> bool" where
  "matches [] s = (s = [])"
| "matches (Star # ts) [] = matches ts []"
| "matches (Star # ts) (c # s) = (matches ts (c # s) \<or> matches (Star # ts) s)"
| "matches (t # ts) [] = False"
| "matches (t # ts) (c # s) = (accepts t c \<and> matches ts s)"

definition fnmatch :: "pystr \<Rightarrow> pystr \<Rightarrow> bool" where
  "fnmatch name pattern = matches (translate pattern) name"

text \<open>\<^verbatim>\<open>"**" in pattern\<close>\<close>

fun double_star :: "pystr \<Rightarrow> bool" where
  "double_star (a # b # rest) = ((a = chr CHR ''*'' \<and> b = chr CHR ''*'') \<or> double_star (b # rest))"
| "double_star rest = False"

text \<open>
  \<^verbatim>\<open>list(cache_path.glob(pattern))\<close> for a pattern of one segment (no \<^verbatim>\<open>/\<close>) that is not
  \<^verbatim>\<open>**\<close> itself, as the names of the entries it selects, in the order of the directory.
  \<^verbatim>\<open>pathlib\<close> (up to CPython 3.12) refuses a segment that holds \<^verbatim>\<open>**\<close> and more
  with a \<^verbatim>\<open>ValueError\<close>, before it looks at the directory; on a path that is not a
  directory it selects nothing.
\<close>

definition glob :: "loc \<Rightarrow> pystr \<Rightarrow> exn + pystr list" where
  "glob fs pattern =
     (if double_star pattern then Inl ValueError
      else Inr (filter (\<lambda>name. fnmatch name pattern) (map fst (entries fs))))"

subsection \<open>\<^verbatim>\<open>clear_cache\<close> and \<^verbatim>\<open>list_cache_files\<close>\<close>

text \<open>
  Lines 131 to 135: the files that \<^verbatim>\<open>clear_cache\<close> selects. \<^verbatim>\<open>if pattern:\<close> is false for
  \<^verbatim>\<open>None\<close> and for the empty string. A pattern with a \<^verbatim>\<open>/\<close> makes a glob of several
  segments, which selects below the subdirectories; the state does not hold their
  content, so the model stops there, with \<open>None\<close>.
\<close>

definition files_to_delete :: "loc \<Rightarrow> pystr option \<Rightarrow> (exn + pystr list) option" where
  "files_to_delete fs pattern =
     (case pattern of
        None \<Rightarrow> Some (glob fs (str ''*.xlsx''))
      | Some p \<Rightarrow>
         if p \<noteq> [] then
           (if chr CHR ''/'' \<in> set p then None
            else Some (glob fs (str ''*'' @ p @ str ''*'')))
         else Some (glob fs (str ''*.xlsx'')))"

text \<open>
  The loop of lines 137 to 142 over the selected files: each \<^verbatim>\<open>unlink\<close> stands in its
  own \<^verbatim>\<open>try\<close>.
\<close>

fun unlink_all :: "env \<Rightarrow> pystr list \<Rightarrow> loc \<times> event list \<Rightarrow> loc \<times> event list" where
  "unlink_all env [] st = st"
| "unlink_all env (file_path # files) (fs, tr) =
     (case unlink env fs file_path of
        Inr fs' \<Rightarrow>
          unlink_all env files (fs', tr @ [Unlink file_path, Log INFO (Deleted file_path)])
      | Inl e \<Rightarrow>
          unlink_all env files (fs, tr @ [Unlink file_path, Log ERROR (Delete_failed file_path e)]))"

text \<open>
  How a call of \<^verbatim>\<open>clear_cache\<close> ends: it returns, it raises, or its pattern leads out of
  the model. The \<^verbatim>\<open>cache_path.exists()\<close> of lines 127 and 156 and the \<^verbatim>\<open>glob\<close> stand
  outside every \<^verbatim>\<open>try\<close>.
\<close>

datatype clear_outcome = Returns | Raises exn | Beyond_model

definition clear_cache :: "env \<Rightarrow> loc \<Rightarrow> pystr option \<Rightarrow> clear_outcome \<times> loc \<times> event list" where
  "clear_cache env fs pattern =
     (case path_exists fs of
        Inl e \<Rightarrow> (Raises e, fs, [])
      | Inr False \<Rightarrow> (Returns, fs, [Log INFO No_cache_dir])
      | Inr True \<Rightarrow>
         (case files_to_delete fs pattern of
            None \<Rightarrow> (Beyond_model, fs, [])
          | Some (Inl e) \<Rightarrow> (Raises e, fs, [])
          | Some (Inr files) \<Rightarrow>
             (case unlink_all env files (fs, []) of (fs', tr) \<Rightarrow> (Returns, fs', tr))))"

definition list_cache_files :: "loc \<Rightarrow> exn + pystr list" where
  "list_cache_files fs =
     (case path_exists fs of
        Inl e \<Rightarrow> Inl e
      | Inr False \<Rightarrow> Inr []
      | Inr True \<Rightarrow> glob fs (str ''*.xlsx''))"

subsection \<open>The cache key as the specification words it\<close>

text \<open>
  The specification derives the key of a time range by stripping the characters outside
  an allow-list (alphanumeric, space, hyphen, underscore, dot) from the start and from
  the end, and joining the two with an underscore. \<open>spec_strip\<close> and \<open>spec_cache_key\<close>
  follow these words, not the source.
\<close>

fun spec_strip :: "env \<Rightarrow> pystr \<Rightarrow> pystr" where
  "spec_strip env [] = []"
| "spec_strip env (c # cs) =
     (if isalnum env c \<or> c = chr CHR '' '' \<or> c = chr CHR ''-'' \<or> c = chr CHR ''_'' \<or>
         c = chr CHR ''.''
      then c # spec_strip env cs
      else spec_strip env cs)"

definition spec_cache_key :: "env \<Rightarrow> pystr \<Rightarrow> pystr \<Rightarrow> pystr" where
  "spec_cache_key env start_time end_time =
     spec_strip env start_time @ str ''_'' @ spec_strip env end_time"

subsection \<open>Reading a trace\<close>

text \<open>
  The writes of the artifact (\<^verbatim>\<open>to_excel\<close> with its path and table), the calls of the
  source query and the removals, each in the order of the trace.
\<close>

definition writes :: "event list \<Rightarrow> (pystr \<times> table) list" where
  "writes tr = concat (map (\<lambda>ev. case ev of To_excel name df \<Rightarrow> [(name, df)] | _ \<Rightarrow> []) tr)"

definition source_calls :: "event list \<Rightarrow> (pystr \<times> pystr) list" where
  "source_calls tr = concat (map (\<lambda>ev. case ev of Source a b \<Rightarrow> [(a, b)] | _ \<Rightarrow> []) tr)"

definition unlinks :: "event list \<Rightarrow> pystr list" where
  "unlinks tr = concat (map (\<lambda>ev. case ev of Unlink name \<Rightarrow> [name] | _ \<Rightarrow> []) tr)"

text \<open>
  What lines 57 to 72 make of an outcome of the source query: the table when there is one
  and it is not empty, \<^verbatim>\<open>None\<close> otherwise.
\<close>

definition returned_for :: "exn + table option \<Rightarrow> table option" where
  "returned_for r =
     (case r of
        Inl e \<Rightarrow> None
      | Inr None \<Rightarrow> None
      | Inr (Some df) \<Rightarrow> if df_empty df then None else Some df)"

subsection \<open>An environment for the examples\<close>

text \<open>
  A table of one row, an older one, and an environment where the source query returns
  the first, the write succeeds, the written bytes read back as the table and the bytes
  of an older artifact as the older table.
\<close>

definition example_table :: table where
  "example_table =
     \<lparr>columns = [str ''date'', str ''value''], rows = [[Txt (str ''2024-01-01''), Num 100]]\<rparr>"

definition old_table :: table where
  "old_table =
     \<lparr>columns = [str ''date'', str ''value''], rows = [[Txt (str ''2024-01-01''), Num 7]]\<rparr>"

definition example_env :: env where
  "example_env =
     \<lparr>unicode_alnum = (\<lambda>c. False),
      read_excel =
        (\<lambda>b. if b = ''PK'' then Inr example_table
             else if b = ''PK-old'' then Inr old_table
             else Inl (Failure (str ''not a workbook''))),
      to_excel = (\<lambda>df. Written ''PK''),
      query_data_from_source = (\<lambda>a b. Inr (Some example_table)),
      unlink_error = (\<lambda>name. None),
      path_error = (\<lambda>name. None)\<rparr>"

text \<open>The artifact of the range from 2024-01-01 to 2024-01-10, and a directory that holds it.\<close>

definition example_file :: pystr where
  "example_file = str ''2024-01-01_2024-01-10.xlsx''"

definition example_dir :: loc where
  "example_dir = Directory [(example_file, File ''PK'')]"

text \<open>
  An outcome of the source query that carries no data: it raised, it returned \<^verbatim>\<open>None\<close>,
  or it returned an empty table.
\<close>

definition no_data :: "exn + table option \<Rightarrow> bool" where
  "no_data r = (case r of Inl e \<Rightarrow> True | Inr None \<Rightarrow> True | Inr (Some df) \<Rightarrow> df_empty df)"

text \<open>
  More examples: a directory whose artifact is not a workbook, a table without rows and
  an environment whose source query returns it, and a directory that holds a file of
  another kind.
\<close>

definition corrupt_dir :: loc where
  "corrupt_dir = Directory [(example_file, File ''garbage'')]"

definition empty_table :: table where
  "empty_table = \<lparr>columns = [str ''date'', str ''value''], rows = []\<rparr>"

definition empty_source_env :: env where
  "empty_source_env = example_env\<lparr>query_data_from_source := (\<lambda>a b. Inr (Some empty_table))\<rparr>"

definition notes_dir :: loc where
  "notes_dir = Directory [(str ''notes.txt'', File ''memo'')]"

text \<open>
  A directory with a stale artifact, and an environment where every write is refused
  before it touches the file (a file that may be read and not written).
\<close>

definition stale_env :: env where
  "stale_env =
     example_env\<lparr>to_excel := (\<lambda>df. Write_failed (Failure (str ''Permission denied'')) None)\<rparr>"

text \<open>
  An environment with the limit of 255 bytes on a file name, and a start of 250 digits,
  whose file name is longer.
\<close>

definition posix_env :: env where
  "posix_env =
     example_env\<lparr>path_error :=
        (\<lambda>name. if 255 < length name then Some (OSError (str ''File name too long''))
                else None)\<rparr>"

definition long_start :: pystr where
  "long_start = replicate 250 (chr CHR ''0'')"

definition stale_dir :: loc where
  "stale_dir = Directory [(example_file, File ''PK-old'')]"

subsection \<open>Patterns and removals\<close>




text \<open>
  A directory with two artifacts and a text file, and one whose only file is named like
  a character class.
\<close>

definition mixed_dir :: loc where
  "mixed_dir =
     Directory
       [(example_file, File ''PK''),
        (str ''notes-2024-01.txt'', File ''memo''),
        (str ''2023-12-01_2023-12-31.xlsx'', File ''PK'')]"


section \<open>The file name\<close>

lemma safe_time_spec_strip: "safe_time env t = spec_strip env t"
  by (induction t) (auto simp: safe_time_def)

lemma safe_time_no_separator:
  "chr CHR ''/'' \<notin> set (safe_time env t) \<and> chr CHR '':'' \<notin> set (safe_time env t) \<and>
   chr CHR ''?'' \<notin> set (safe_time env t)"
  by (simp add: safe_time_def isalnum_def)

text \<open>
  Claim C6. For every start and end, the file name of the artifact is the key of the
  specification (each of the two strings with the characters outside the allow-list
  deleted, joined by an underscore) followed by \<^verbatim>\<open>.xlsx\<close>. It holds no \<^verbatim>\<open>/\<close>, \<^verbatim>\<open>:\<close> or
  \<^verbatim>\<open>?\<close>, whatever the two strings are; for the start \<^verbatim>\<open>a/b:c\<close> and the end \<^verbatim>\<open>d?e\<close> it is
  \<^verbatim>\<open>abc_de.xlsx\<close>.
\<close>

theorem cache_key_sanitized:
  "filename env start_time end_time = spec_cache_key env start_time end_time @ str ''.xlsx'' \<and>
   chr CHR ''/'' \<notin> set (filename env start_time end_time) \<and>
   chr CHR '':'' \<notin> set (filename env start_time end_time) \<and>
   chr CHR ''?'' \<notin> set (filename env start_time end_time) \<and>
   filename env (str ''a/b:c'') (str ''d?e'') = str ''abc_de.xlsx''"
proof -
  have key:
    "filename env start_time end_time = spec_cache_key env start_time end_time @ str ''.xlsx''"
    by (simp add: filename_def spec_cache_key_def safe_time_spec_strip)
  have sep:
    "chr CHR ''/'' \<notin> set (filename env start_time end_time) \<and>
     chr CHR '':'' \<notin> set (filename env start_time end_time) \<and>
     chr CHR ''?'' \<notin> set (filename env start_time end_time)"
    using safe_time_no_separator [of env start_time] safe_time_no_separator [of env end_time]
    by (simp add: filename_def str_def)
  have ex: "filename env (str ''a/b:c'') (str ''d?e'') = str ''abc_de.xlsx''"
    by (simp add: filename_def safe_time_def isalnum_def str_def)
  from key sep ex show ?thesis by blast
qed

section \<open>The directory and the trace\<close>

lemma mkdir_Inr:
  "mkdir fs = Inr d \<Longrightarrow> \<exists>es. d = Directory es \<and> entries fs = es \<and> (fs = Absent \<or> fs = d)"
  by (auto simp: mkdir_def entries_def split: loc.splits)

lemma lookup_mkdir: "mkdir fs = Inr d \<Longrightarrow> lookup d name = lookup fs name"
  by (auto simp: mkdir_def lookup_def split: loc.splits)

lemma mkdir_of_lookup: "lookup fs name \<noteq> None \<Longrightarrow> mkdir fs = Inr fs"
  by (auto simp: mkdir_def lookup_def split: loc.splits)

lemma file_exists_mkdir: "mkdir fs = Inr d \<Longrightarrow> file_exists env d name = file_exists env fs name"
  using lookup_mkdir [of fs d name] by (simp add: file_exists_def split: option.splits)

lemma file_exists_True:
  "file_exists env fs name = Inr True \<Longrightarrow> lookup fs name \<noteq> None \<and> path_error env name = None"
  by (auto simp: file_exists_def split: option.splits)

lemma file_exists_Inr: "file_exists env fs name = Inr present \<Longrightarrow> path_error env name = None"
  by (auto simp: file_exists_def split: option.splits)

lemma lookup_store:
  "lookup (store (Directory es) name n) name' =
     (if name' = name then Some n else lookup (Directory es) name')"
  by (simp add: lookup_def store_def update_conv')

lemma writes_simps [simp]:
  "writes [] = []"
  "writes (To_excel name df # tr) = (name, df) # writes tr"
  "writes (Log l m # tr) = writes tr"
  "writes (Read_excel name # tr) = writes tr"
  "writes (Source a b # tr) = writes tr"
  "writes (Unlink name # tr) = writes tr"
  "writes (tr @ tr') = writes tr @ writes tr'"
  by (simp_all add: writes_def)

lemma source_calls_simps [simp]:
  "source_calls [] = []"
  "source_calls (To_excel name df # tr) = source_calls tr"
  "source_calls (Log l m # tr) = source_calls tr"
  "source_calls (Read_excel name # tr) = source_calls tr"
  "source_calls (Source a b # tr) = (a, b) # source_calls tr"
  "source_calls (Unlink name # tr) = source_calls tr"
  "source_calls (tr @ tr') = source_calls tr @ source_calls tr'"
  by (simp_all add: source_calls_def)

lemma unlinks_simps [simp]:
  "unlinks [] = []"
  "unlinks (To_excel name df # tr) = unlinks tr"
  "unlinks (Log l m # tr) = unlinks tr"
  "unlinks (Read_excel name # tr) = unlinks tr"
  "unlinks (Source a b # tr) = unlinks tr"
  "unlinks (Unlink name # tr) = name # unlinks tr"
  "unlinks (tr @ tr') = unlinks tr @ unlinks tr'"
  by (simp_all add: unlinks_def)

lemma filename_example:
  "filename example_env (str ''2024-01-01'') (str ''2024-01-10'') = example_file"
  by (simp add: filename_def safe_time_def isalnum_def str_def example_env_def example_file_def)

section \<open>The cache hit\<close>

text \<open>
  Claim C2. When \<^verbatim>\<open>force_refresh\<close> is false and the artifact of the range exists
  (the test of line 42 answers \<^verbatim>\<open>True\<close>) and \<^verbatim>\<open>pd.read_excel\<close> reads a table from it,
  the call returns that table, leaves the directory as it was, and neither calls the
  source query nor writes.
\<close>

theorem cache_hit_skips_source:
  assumes "file_exists env fs (filename env start_time end_time) = Inr True"
    and "pd_read_excel env fs (filename env start_time end_time) = Inr df"
  shows "\<exists>tr. query_data_with_cache env fs start_time end_time False = (Inr (Some df), fs, tr) \<and>
           source_calls tr = [] \<and> writes tr = []"
proof -
  have "mkdir fs = Inr fs"
    using file_exists_True [OF assms(1)] mkdir_of_lookup [of fs "filename env start_time end_time"]
    by blast
  with assms show ?thesis
    by (simp add: query_data_with_cache_def Let_def)
qed

theorem cache_hit_skips_source_witness:
  "file_exists example_env example_dir
     (filename example_env (str ''2024-01-01'') (str ''2024-01-10'')) = Inr True \<and>
   pd_read_excel example_env example_dir
     (filename example_env (str ''2024-01-01'') (str ''2024-01-10'')) = Inr example_table \<and>
   (\<exists>tr. query_data_with_cache example_env example_dir (str ''2024-01-01'') (str ''2024-01-10'')
            False = (Inr (Some example_table), example_dir, tr) \<and>
          source_calls tr = [] \<and> writes tr = [])"
proof -
  have a: "file_exists example_env example_dir
     (filename example_env (str ''2024-01-01'') (str ''2024-01-10'')) = Inr True"
    unfolding filename_example
    by (simp add: file_exists_def lookup_def example_dir_def example_env_def)
  have b: "pd_read_excel example_env example_dir
     (filename example_env (str ''2024-01-01'') (str ''2024-01-10'')) = Inr example_table"
    unfolding filename_example
    by (simp add: lookup_def pd_read_excel_def example_env_def example_dir_def)
  from a b cache_hit_skips_source [OF a b] show ?thesis by blast
qed

section \<open>The source query and the write\<close>

lemma df_to_excel_cases:
  "df_to_excel env (Directory es) file df = (r, fs') \<Longrightarrow>
     fs' = Directory es \<or> (\<exists>b. fs' = store (Directory es) file (File b))"
  by (auto simp: df_to_excel_def split: option.splits node.splits write_result.splits)

lemma df_to_excel_Written:
  "to_excel env df = Written b \<Longrightarrow> lookup (Directory es) file \<noteq> Some Subdir \<Longrightarrow>
     df_to_excel env (Directory es) file df = (None, store (Directory es) file (File b))"
  by (auto simp: df_to_excel_def split: option.splits node.splits)

lemma run_query_shape:
  assumes "run_query env (Directory es) s e file tr = (r, fs', tr')"
  shows "r = Inr (returned_for (query_data_from_source env s e)) \<and>
         source_calls tr' = source_calls tr @ [(s, e)] \<and>
         unlinks tr' = unlinks tr \<and>
         (returned_for (query_data_from_source env s e) = None \<and> fs' = Directory es \<and>
          writes tr' = writes tr \<or>
          (\<exists>df. query_data_from_source env s e = Inr (Some df) \<and> \<not> df_empty df \<and>
                writes tr' = writes tr @ [(file, df)] \<and>
                (fs' = Directory es \<or> (\<exists>b. fs' = store (Directory es) file (File b)))))"
proof (cases "query_data_from_source env s e")
  case (Inl ex)
  from assms show ?thesis by (auto simp: run_query_def returned_for_def Let_def Inl)
next
  case (Inr o1)
  show ?thesis
  proof (cases o1)
    case None
    from assms show ?thesis by (auto simp: run_query_def returned_for_def Let_def Inr None)
  next
    case (Some df)
    show ?thesis
    proof (cases "df_empty df")
      case True
      from assms show ?thesis by (auto simp: run_query_def returned_for_def Let_def Inr Some True)
    next
      case False
      obtain w fs1 where w: "df_to_excel env (Directory es) file df = (w, fs1)"
        by (cases "df_to_excel env (Directory es) file df")
      from df_to_excel_cases [OF w] assms show ?thesis
        by (cases w) (auto simp: run_query_def returned_for_def Let_def Inr Some False w)
    qed
  qed
qed

lemma returned_for_no_data: "no_data r \<Longrightarrow> returned_for r = None"
  by (auto simp: no_data_def returned_for_def split: sum.splits option.splits)

lemma query_cases:
  assumes "query_data_with_cache env fs s e force = (r, fs', tr)"
  shows "(\<exists>ex. mkdir fs = Inl ex \<and> r = Inl ex \<and> fs' = fs \<and> tr = []) \<or>
         (\<exists>d ex. mkdir fs = Inr d \<and> file_exists env d (filename env s e) = Inl ex \<and>
            r = Inl ex \<and> fs' = d \<and> tr = []) \<or>
         (\<exists>d df. mkdir fs = Inr d \<and> file_exists env d (filename env s e) = Inr True \<and> \<not> force \<and>
            pd_read_excel env d (filename env s e) = Inr df \<and> r = Inr (Some df) \<and> fs' = d \<and>
            tr = [Log INFO (Reading_cache (filename env s e)), Read_excel (filename env s e),
                  Log INFO (Loaded_from_cache df)]) \<or>
         (\<exists>d present tr0. mkdir fs = Inr d \<and>
            file_exists env d (filename env s e) = Inr present \<and>
            run_query env d s e (filename env s e) tr0 = (r, fs', tr) \<and>
            (tr0 = [] \<and> (\<not> present \<or> force) \<or>
             (\<exists>ex. present \<and> \<not> force \<and>
                pd_read_excel env d (filename env s e) = Inl ex \<and>
                tr0 = [Log INFO (Reading_cache (filename env s e)), Read_excel (filename env s e),
                       Log ERROR (Read_failed ex)])))"
proof (cases "mkdir fs")
  case (Inl ex)
  with assms show ?thesis by (simp add: query_data_with_cache_def)
next
  case d: (Inr d)
  show ?thesis
  proof (cases "file_exists env d (filename env s e)")
    case (Inl ex)
    with assms d show ?thesis by (simp add: query_data_with_cache_def Let_def)
  next
    case (Inr present)
    show ?thesis
    proof (cases "present \<and> \<not> force")
      case False
      with assms have "run_query env d s e (filename env s e) [] = (r, fs', tr)"
        by (simp add: query_data_with_cache_def Let_def d Inr)
      with False show ?thesis by (auto simp: d Inr)
    next
      case True
      show ?thesis
      proof (cases "pd_read_excel env d (filename env s e)")
        case rd: (Inl ex)
        from assms True have "run_query env d s e (filename env s e)
            [Log INFO (Reading_cache (filename env s e)), Read_excel (filename env s e),
             Log ERROR (Read_failed ex)] = (r, fs', tr)"
          by (simp add: query_data_with_cache_def Let_def d Inr rd)
        with True rd show ?thesis by (auto simp: d Inr)
      next
        case rd: (Inr df)
        from assms True have res: "r = Inr (Some df) \<and> fs' = d \<and>
            tr = [Log INFO (Reading_cache (filename env s e)), Read_excel (filename env s e),
                  Log INFO (Loaded_from_cache df)]"
          by (simp add: query_data_with_cache_def Let_def d Inr rd)
        from Inr True have "file_exists env d (filename env s e) = Inr True" by simp
        with res d rd True show ?thesis by blast
      qed
    qed
  qed
qed


lemma filename_env_cong:
  "unicode_alnum env' = unicode_alnum env \<Longrightarrow> filename env' s e = filename env s e"
  by (simp add: filename_def safe_time_def isalnum_def)

text \<open>
  Claim C4. When the artifact of the range exists (the test of line 42 answers
  \<^verbatim>\<open>True\<close>) and \<^verbatim>\<open>pd.read_excel\<close> raises on it (the read is attempted when
  \<^verbatim>\<open>force_refresh\<close> is false), the call logs the failure at \<^verbatim>\<open>ERROR\<close>, calls the source
  query once, and returns without raising what lines 57 to 72 make of the outcome of the
  source query (the table when it is not empty, \<^verbatim>\<open>None\<close> otherwise, also when the source
  query raises). The path of the artifact still exists afterwards: the file is
  overwritten at most, never removed.
\<close>

theorem corrupt_cache_falls_back:
  assumes "file_exists env fs (filename env start_time end_time) = Inr True"
    and "pd_read_excel env fs (filename env start_time end_time) = Inl ex"
  shows "\<exists>fs' tr. query_data_with_cache env fs start_time end_time False =
           (Inr (returned_for (query_data_from_source env start_time end_time)), fs', tr) \<and>
         Log ERROR (Read_failed ex) \<in> set tr \<and>
         source_calls tr = [(start_time, end_time)] \<and>
         lookup fs' (filename env start_time end_time) \<noteq> None"
proof -
  let ?f = "filename env start_time end_time"
  let ?tr0 = "[Log INFO (Reading_cache ?f), Read_excel ?f, Log ERROR (Read_failed ex)]"
  note there = file_exists_True [OF assms(1)]
  from there obtain es where fs: "fs = Directory es"
    by (auto simp: lookup_def split: loc.splits)
  have q: "query_data_with_cache env fs start_time end_time False =
             run_query env fs start_time end_time ?f ?tr0"
    using assms by (simp add: query_data_with_cache_def fs mkdir_def Let_def)
  obtain r fs' tr where rq: "run_query env (Directory es) start_time end_time ?f ?tr0 = (r, fs', tr)"
    by (cases "run_query env (Directory es) start_time end_time ?f ?tr0")
  note sh = run_query_shape [OF rq]
  have tr: "Log ERROR (Read_failed ex) \<in> set tr"
    using rq by (auto simp: run_query_def Let_def split: sum.splits option.splits if_splits prod.splits)
  have kept: "lookup fs' ?f \<noteq> None"
    using sh there by (auto simp: fs lookup_store)
  from sh tr kept q rq show ?thesis by (simp add: fs)
qed

theorem corrupt_cache_falls_back_witness:
  "file_exists example_env corrupt_dir
     (filename example_env (str ''2024-01-01'') (str ''2024-01-10'')) = Inr True \<and>
   pd_read_excel example_env corrupt_dir (filename example_env (str ''2024-01-01'') (str ''2024-01-10''))
     = Inl (Failure (str ''not a workbook'')) \<and>
   (\<exists>fs' tr. query_data_with_cache example_env corrupt_dir (str ''2024-01-01'') (str ''2024-01-10'') False =
       (Inr (returned_for (query_data_from_source example_env (str ''2024-01-01'') (str ''2024-01-10''))),
        fs', tr) \<and>
      Log ERROR (Read_failed (Failure (str ''not a workbook''))) \<in> set tr \<and>
      source_calls tr = [(str ''2024-01-01'', str ''2024-01-10'')] \<and>
      lookup fs' (filename example_env (str ''2024-01-01'') (str ''2024-01-10'')) \<noteq> None)"
proof -
  have a: "file_exists example_env corrupt_dir
      (filename example_env (str ''2024-01-01'') (str ''2024-01-10'')) = Inr True"
    unfolding filename_example
    by (simp add: file_exists_def lookup_def corrupt_dir_def example_env_def)
  have b: "pd_read_excel example_env corrupt_dir
      (filename example_env (str ''2024-01-01'') (str ''2024-01-10'')) = Inl (Failure (str ''not a workbook''))"
    unfolding filename_example
    by (simp add: lookup_def pd_read_excel_def example_env_def corrupt_dir_def)
  from a b corrupt_cache_falls_back [OF a b] show ?thesis by blast
qed

lemma filename_reversed:
  "filename empty_source_env (str ''2024-01-10'') (str ''2024-01-01'') = str ''2024-01-10_2024-01-01.xlsx''"
  by (simp add: filename_def safe_time_def isalnum_def str_def empty_source_env_def example_env_def)

lemma empty_source_query:
  "query_data_with_cache empty_source_env Absent (str ''2024-01-10'') (str ''2024-01-01'') False =
     (Inr None, Directory [],
      [Log INFO (Querying (str ''2024-01-10'') (str ''2024-01-01'')),
       Source (str ''2024-01-10'') (str ''2024-01-01''), Log WARNING Empty_result])"
  unfolding query_data_with_cache_def filename_reversed
  by (simp add: mkdir_def file_exists_def lookup_def run_query_def empty_source_env_def
      example_env_def empty_table_def df_empty_def)

text \<open>
  Claim C5. In a call that reaches the source query, when the source query raises or
  returns \<^verbatim>\<open>None\<close> or an empty table, the call returns \<^verbatim>\<open>None\<close>, no write of the
  artifact takes place, and the directory afterwards is the one \<^verbatim>\<open>mkdir\<close> left: no
  entry was added or changed.
\<close>

theorem no_result_no_artifact:
  assumes "query_data_with_cache env fs start_time end_time force_refresh = (r, fs', tr)"
    and "(start_time, end_time) \<in> set (source_calls tr)"
    and "no_data (query_data_from_source env start_time end_time)"
  shows "r = Inr None \<and> mkdir fs = Inr fs' \<and> writes tr = []"
proof -
  from query_cases [OF assms(1)] assms(2)
  obtain d tr0 where d: "mkdir fs = Inr d"
    and rq: "run_query env d start_time end_time (filename env start_time end_time) tr0 = (r, fs', tr)"
    and tr0: "writes tr0 = []"
    by fastforce
  from mkdir_Inr [OF d] obtain es where es: "d = Directory es" by blast
  from run_query_shape [OF rq [unfolded es]] assms(3) tr0 d es show ?thesis
    by (auto simp: returned_for_no_data no_data_def)
qed

theorem no_result_no_artifact_witness:
  "query_data_with_cache empty_source_env Absent (str ''2024-01-10'') (str ''2024-01-01'') False =
     (Inr None, Directory [],
      [Log INFO (Querying (str ''2024-01-10'') (str ''2024-01-01'')),
       Source (str ''2024-01-10'') (str ''2024-01-01''), Log WARNING Empty_result]) \<and>
   (str ''2024-01-10'', str ''2024-01-01'') \<in> set (source_calls
      [Log INFO (Querying (str ''2024-01-10'') (str ''2024-01-01'')),
       Source (str ''2024-01-10'') (str ''2024-01-01''), Log WARNING Empty_result]) \<and>
   no_data (query_data_from_source empty_source_env (str ''2024-01-10'') (str ''2024-01-01'')) \<and>
   mkdir Absent = Inr (Directory []) \<and>
   writes [Log INFO (Querying (str ''2024-01-10'') (str ''2024-01-01'')),
       Source (str ''2024-01-10'') (str ''2024-01-01''), Log WARNING Empty_result] = []"
proof -
  let ?tr = "[Log INFO (Querying (str ''2024-01-10'') (str ''2024-01-01'')),
       Source (str ''2024-01-10'') (str ''2024-01-01''), Log WARNING Empty_result]"
  have b: "(str ''2024-01-10'', str ''2024-01-01'') \<in> set (source_calls ?tr)"
    by simp
  have c: "no_data (query_data_from_source empty_source_env (str ''2024-01-10'') (str ''2024-01-01''))"
    by (simp add: no_data_def empty_source_env_def empty_table_def df_empty_def)
  from empty_source_query b c no_result_no_artifact [OF empty_source_query b c]
  show ?thesis by blast
qed

lemma filename_notes: "str ''notes.txt'' \<noteq> filename example_env (str ''2024-01-01'') (str ''2024-01-10'')"
  unfolding filename_example by (simp add: example_file_def str_def)

lemma notes_query:
  "query_data_with_cache example_env notes_dir (str ''2024-01-01'') (str ''2024-01-10'') False =
     (Inr (Some example_table),
      Directory [(str ''notes.txt'', File ''memo''), (example_file, File ''PK'')],
      [Log INFO (Querying (str ''2024-01-01'') (str ''2024-01-10'')),
       Source (str ''2024-01-01'') (str ''2024-01-10''),
       To_excel example_file example_table, Log INFO (Cached_to example_file)])"
  unfolding query_data_with_cache_def filename_example
  by (simp add: mkdir_def file_exists_def lookup_def run_query_def example_env_def notes_dir_def
      df_to_excel_def store_def example_table_def df_empty_def example_file_def str_def Let_def)

text \<open>
  Claim C9. Whatever the arguments, a call changes the filesystem at most by creating
  the cache directory and by creating or overwriting the one entry at the file name of
  the range: the state afterwards is the state before (when \<^verbatim>\<open>mkdir\<close> raised), or the
  directory of \<^verbatim>\<open>mkdir\<close>, or that directory with a file stored at the file name of the
  range. Every entry of another name is as before, nothing is removed, and there is at
  most one write, to the artifact. (Where the test of line 42 raises, the state is the
  directory of \<^verbatim>\<open>mkdir\<close>.)
\<close>

theorem query_frame:
  assumes "query_data_with_cache env fs start_time end_time force_refresh = (r, fs', tr)"
  shows "((\<exists>ex. r = Inl ex) \<and> fs' = fs \<or>
          (\<exists>d. mkdir fs = Inr d \<and>
             (fs' = d \<or> (\<exists>b. fs' = store d (filename env start_time end_time) (File b))))) \<and>
         (\<forall>name. name \<noteq> filename env start_time end_time \<longrightarrow> lookup fs' name = lookup fs name) \<and>
         unlinks tr = [] \<and>
         (writes tr = [] \<or> (\<exists>df. writes tr = [(filename env start_time end_time, df)]))"
proof -
  let ?f = "filename env start_time end_time"
  from query_cases [OF assms]
  consider (raised) ex where "mkdir fs = Inl ex" "r = Inl ex" "fs' = fs" "tr = []"
    | (hit) d where "mkdir fs = Inr d" "fs' = d" "unlinks tr = []" "writes tr = []"
    | (miss) d tr0 where "mkdir fs = Inr d" "run_query env d start_time end_time ?f tr0 = (r, fs', tr)"
        "unlinks tr0 = []" "writes tr0 = []"
    by fastforce
  then show ?thesis
  proof cases
    case raised
    then show ?thesis by simp
  next
    case hit
    then show ?thesis by (auto simp: lookup_mkdir)
  next
    case miss
    from mkdir_Inr [OF miss(1)] obtain es where es: "d = Directory es" by blast
    note sh = run_query_shape [OF miss(2) [unfolded es]]
    have st: "fs' = d \<or> (\<exists>b. fs' = store d ?f (File b))"
      using sh es by auto
    have fr: "\<forall>name. name \<noteq> ?f \<longrightarrow> lookup fs' name = lookup fs name"
      using st lookup_mkdir [OF miss(1)] by (auto simp: es lookup_store)
    have ev: "unlinks tr = [] \<and> (writes tr = [] \<or> (\<exists>df. writes tr = [(?f, df)]))"
      using sh miss(3,4) by auto
    from st fr ev miss(1) show ?thesis by blast
  qed
qed

theorem query_frame_witness:
  "query_data_with_cache example_env notes_dir (str ''2024-01-01'') (str ''2024-01-10'') False =
     (Inr (Some example_table),
      Directory [(str ''notes.txt'', File ''memo''), (example_file, File ''PK'')],
      [Log INFO (Querying (str ''2024-01-01'') (str ''2024-01-10'')),
       Source (str ''2024-01-01'') (str ''2024-01-10''),
       To_excel example_file example_table, Log INFO (Cached_to example_file)]) \<and>
   lookup (Directory [(str ''notes.txt'', File ''memo''), (example_file, File ''PK'')]) (str ''notes.txt'')
     = lookup notes_dir (str ''notes.txt'') \<and>
   unlinks [Log INFO (Querying (str ''2024-01-01'') (str ''2024-01-10'')),
       Source (str ''2024-01-01'') (str ''2024-01-10''),
       To_excel example_file example_table, Log INFO (Cached_to example_file)] = []"
  using query_frame [OF notes_query] notes_query filename_notes by blast

section \<open>Two calls in a row, and the forced call\<close>

lemma query_hit:
  assumes "file_exists env fs (filename env s e) = Inr True"
    and "pd_read_excel env fs (filename env s e) = Inr df"
  shows "query_data_with_cache env fs s e False =
     (Inr (Some df), fs,
      [Log INFO (Reading_cache (filename env s e)), Read_excel (filename env s e),
       Log INFO (Loaded_from_cache df)])"
proof -
  have "mkdir fs = Inr fs"
    using file_exists_True [OF assms(1)] mkdir_of_lookup [of fs "filename env s e"] by blast
  with assms show ?thesis
    by (simp add: query_data_with_cache_def Let_def)
qed

lemma query_miss:
  assumes "mkdir fs = Inr d"
    and "file_exists env fs (filename env s e) = Inr present"
    and "pd_read_excel env fs (filename env s e) = Inl ex"
  shows "\<exists>tr0. query_data_with_cache env fs s e False = run_query env d s e (filename env s e) tr0 \<and>
           writes tr0 = [] \<and> source_calls tr0 = []"
proof -
  have ex: "file_exists env d (filename env s e) = Inr present"
    using assms(1,2) by (simp add: file_exists_mkdir)
  have rd: "pd_read_excel env d (filename env s e) = Inl ex"
    using assms(3) lookup_mkdir [OF assms(1), of "filename env s e"]
    by (simp add: pd_read_excel_def)
  show ?thesis
  proof (cases present)
    case True
    have "query_data_with_cache env fs s e False = run_query env d s e (filename env s e)
        [Log INFO (Reading_cache (filename env s e)), Read_excel (filename env s e),
         Log ERROR (Read_failed ex)]"
      using True by (simp add: query_data_with_cache_def Let_def assms(1) ex rd)
    then show ?thesis by fastforce
  next
    case False
    have "query_data_with_cache env fs s e False = run_query env d s e (filename env s e) []"
      using False by (simp add: query_data_with_cache_def Let_def assms(1) ex rd)
    then show ?thesis by fastforce
  qed
qed

lemma run_query_stored:
  assumes "query_data_from_source env s e = Inr (Some df)" "\<not> df_empty df"
    and "to_excel env df = Written b" "lookup (Directory es) file \<noteq> Some Subdir"
  shows "run_query env (Directory es) s e file tr =
     (Inr (Some df), store (Directory es) file (File b),
      tr @ [Log INFO (Querying s e), Source s e, To_excel file df, Log INFO (Cached_to file)])"
  using assms by (simp add: run_query_def Let_def df_to_excel_Written)

lemma empty_source_query_again:
  "query_data_with_cache empty_source_env (Directory []) (str ''2024-01-10'') (str ''2024-01-01'') False =
     (Inr None, Directory [],
      [Log INFO (Querying (str ''2024-01-10'') (str ''2024-01-01'')),
       Source (str ''2024-01-10'') (str ''2024-01-01''), Log WARNING Empty_result])"
  unfolding query_data_with_cache_def filename_reversed
  by (simp add: mkdir_def file_exists_def lookup_def run_query_def empty_source_env_def
      example_env_def empty_table_def df_empty_def)

lemma query_forced:
  "mkdir fs = Inr d \<Longrightarrow> file_exists env fs (filename env s e) = Inr present \<Longrightarrow>
     query_data_with_cache env fs s e True = run_query env d s e (filename env s e) []"
  by (simp add: query_data_with_cache_def Let_def file_exists_mkdir)

lemma filename_stale:
  "filename stale_env (str ''2024-01-01'') (str ''2024-01-10'') = example_file"
  by (simp add: filename_def safe_time_def isalnum_def str_def stale_env_def example_env_def example_file_def)

lemma orphan_query:
  "query_data_with_cache env Orphan s e force = (Inl FileNotFoundError, Orphan, [])"
  by (simp add: query_data_with_cache_def mkdir_def)

lemma stale_forced_query:
  "query_data_with_cache stale_env stale_dir (str ''2024-01-01'') (str ''2024-01-10'') True =
     (Inr (Some example_table), stale_dir,
      [Log INFO (Querying (str ''2024-01-01'') (str ''2024-01-10'')),
       Source (str ''2024-01-01'') (str ''2024-01-10''),
       To_excel example_file example_table,
       Log ERROR (Save_failed (Failure (str ''Permission denied'')))])"
  unfolding query_data_with_cache_def filename_stale
  by (simp add: mkdir_def file_exists_def lookup_def run_query_def stale_env_def example_env_def
      stale_dir_def df_to_excel_def store_def example_table_def df_empty_def example_file_def
      str_def Let_def)

lemma long_name_raises:
  "file_exists posix_env (Directory []) (filename posix_env long_start (str ''2024-01-10'')) =
     Inl (OSError (str ''File name too long''))"
  by code_simp

lemma long_name_query:
  "query_data_with_cache posix_env (Directory []) long_start (str ''2024-01-10'') force =
     (Inl (OSError (str ''File name too long'')), Directory [], [])"
  by (simp add: query_data_with_cache_def mkdir_def long_name_raises)

text \<open>
  Claim C1, as amended. Take a cache directory that exists or can be created, in which
  the test of line 42 answers and which holds no readable artifact for the range (none
  at all, or a file that \<^verbatim>\<open>pd.read_excel\<close> rejects), a source query that returns a
  table that is not empty, a write that succeeds, and written bytes that
  \<^verbatim>\<open>pd.read_excel\<close> reads back as that table. Then the first call without
  \<^verbatim>\<open>force_refresh\<close> returns the table and writes the artifact exactly once, and a second
  call on the directory it left returns the same table with no write and no call of the
  source query, whatever the source query would answer by then.
\<close>

theorem repeated_query_same_table:
  assumes "mkdir fs = Inr d"
    and "file_exists env fs (filename env start_time end_time) = Inr present"
    and "pd_read_excel env fs (filename env start_time end_time) = Inl ex"
    and "lookup fs (filename env start_time end_time) \<noteq> Some Subdir"
    and "query_data_from_source env start_time end_time = Inr (Some df)"
    and "\<not> df_empty df"
    and "to_excel env df = Written b"
    and "read_excel env b = Inr df"
  shows "\<exists>fs1 tr1 tr2.
     query_data_with_cache env fs start_time end_time False = (Inr (Some df), fs1, tr1) \<and>
     writes tr1 = [(filename env start_time end_time, df)] \<and>
     query_data_with_cache (env\<lparr>query_data_from_source := later_source\<rparr>) fs1 start_time end_time False =
       (Inr (Some df), fs1, tr2) \<and>
     writes tr2 = [] \<and> source_calls tr2 = []"
proof -
  let ?f = "filename env start_time end_time"
  let ?env2 = "env\<lparr>query_data_from_source := later_source\<rparr>"
  from mkdir_Inr [OF assms(1)] obtain es where es: "d = Directory es" by blast
  from query_miss [OF assms(1,2,3)] obtain tr0
    where q1: "query_data_with_cache env fs start_time end_time False =
                 run_query env d start_time end_time ?f tr0"
      and tr0: "writes tr0 = []" by blast
  have nsub: "lookup (Directory es) ?f \<noteq> Some Subdir"
    using assms(4) lookup_mkdir [OF assms(1), of ?f] by (simp add: es)
  let ?fs1 = "store (Directory es) ?f (File b)"
  let ?tr1 = "tr0 @ [Log INFO (Querying start_time end_time), Source start_time end_time,
                     To_excel ?f df, Log INFO (Cached_to ?f)]"
  have first: "query_data_with_cache env fs start_time end_time False = (Inr (Some df), ?fs1, ?tr1)"
    unfolding q1 es by (rule run_query_stored [OF assms(5,6,7) nsub])
  have w1: "writes ?tr1 = [(?f, df)]"
    using tr0 by simp
  have f2: "filename ?env2 start_time end_time = ?f"
    by (rule filename_env_cong) simp
  have there: "file_exists ?env2 ?fs1 (filename ?env2 start_time end_time) = Inr True"
    using file_exists_Inr [OF assms(2)] by (simp add: f2 file_exists_def lookup_store)
  have readable: "pd_read_excel ?env2 ?fs1 (filename ?env2 start_time end_time) = Inr df"
    using assms(8) by (simp add: f2 pd_read_excel_def lookup_store)
  note second = query_hit [OF there readable]
  from first w1 second show ?thesis by simp
qed

theorem repeated_query_same_table_witness:
  "mkdir Absent = Inr (Directory []) \<and>
   file_exists example_env Absent (filename example_env (str ''2024-01-01'') (str ''2024-01-10''))
     = Inr False \<and>
   pd_read_excel example_env Absent (filename example_env (str ''2024-01-01'') (str ''2024-01-10''))
     = Inl FileNotFoundError \<and>
   lookup Absent (filename example_env (str ''2024-01-01'') (str ''2024-01-10'')) \<noteq> Some Subdir \<and>
   query_data_from_source example_env (str ''2024-01-01'') (str ''2024-01-10'') = Inr (Some example_table) \<and>
   \<not> df_empty example_table \<and>
   to_excel example_env example_table = Written ''PK'' \<and>
   read_excel example_env ''PK'' = Inr example_table \<and>
   (\<exists>fs1 tr1 tr2.
     query_data_with_cache example_env Absent (str ''2024-01-01'') (str ''2024-01-10'') False =
       (Inr (Some example_table), fs1, tr1) \<and>
     writes tr1 = [(filename example_env (str ''2024-01-01'') (str ''2024-01-10''), example_table)] \<and>
     query_data_with_cache
       (example_env\<lparr>query_data_from_source := (\<lambda>a b. Inl (Failure (str ''offline'')))\<rparr>)
       fs1 (str ''2024-01-01'') (str ''2024-01-10'') False = (Inr (Some example_table), fs1, tr2) \<and>
     writes tr2 = [] \<and> source_calls tr2 = [])"
proof -
  have a: "mkdir Absent = Inr (Directory [])"
    by (simp add: mkdir_def)
  have p: "file_exists example_env Absent
      (filename example_env (str ''2024-01-01'') (str ''2024-01-10'')) = Inr False"
    by (simp add: file_exists_def lookup_def example_env_def)
  have b: "pd_read_excel example_env Absent (filename example_env (str ''2024-01-01'') (str ''2024-01-10''))
     = Inl FileNotFoundError"
    by (simp add: pd_read_excel_def lookup_def)
  have c: "lookup Absent (filename example_env (str ''2024-01-01'') (str ''2024-01-10'')) \<noteq> Some Subdir"
    by (simp add: lookup_def)
  have d: "query_data_from_source example_env (str ''2024-01-01'') (str ''2024-01-10'') = Inr (Some example_table)"
    by (simp add: example_env_def)
  have e: "\<not> df_empty example_table"
    by (simp add: df_empty_def example_table_def)
  have f: "to_excel example_env example_table = Written ''PK''"
    by (simp add: example_env_def)
  have g: "read_excel example_env ''PK'' = Inr example_table"
    by (simp add: example_env_def)
  from a p b c d e f g repeated_query_same_table [OF a p b c d e f g]
  show ?thesis by blast
qed

text \<open>
  The claim as it is written fails where the first call writes nothing: for a range
  whose source query returns an empty table (the stand-in does so when the start lies
  after the end), both calls return \<^verbatim>\<open>None\<close> and neither writes.
\<close>

theorem repeated_query_counterexample:
  "query_data_with_cache empty_source_env Absent (str ''2024-01-10'') (str ''2024-01-01'') False =
     (Inr None, Directory [],
      [Log INFO (Querying (str ''2024-01-10'') (str ''2024-01-01'')),
       Source (str ''2024-01-10'') (str ''2024-01-01''), Log WARNING Empty_result]) \<and>
   query_data_with_cache empty_source_env (Directory []) (str ''2024-01-10'') (str ''2024-01-01'') False =
     (Inr None, Directory [],
      [Log INFO (Querying (str ''2024-01-10'') (str ''2024-01-01'')),
       Source (str ''2024-01-10'') (str ''2024-01-01''), Log WARNING Empty_result]) \<and>
   writes [Log INFO (Querying (str ''2024-01-10'') (str ''2024-01-01'')),
       Source (str ''2024-01-10'') (str ''2024-01-01''), Log WARNING Empty_result] = []"
  using empty_source_query empty_source_query_again by simp

text \<open>
  Claim C3, as amended. With \<^verbatim>\<open>force_refresh\<close>, a cache directory that exists or can be
  created, and a test of line 42 that answers (it is evaluated on a forced call too,
  and what it raises leaves the function), the call calls the source query once, whether
  or not a valid artifact exists, and returns what lines 57 to 72 make of its outcome.
  When the result is a table that is not empty, the call writes it to the path of the
  artifact, once; when that write succeeds (and the path is not a directory), the
  artifact holds the new result afterwards.
\<close>

theorem force_refresh_queries_source:
  assumes "mkdir fs = Inr d"
    and "file_exists env fs (filename env start_time end_time) = Inr present"
  shows "\<exists>fs' tr.
     query_data_with_cache env fs start_time end_time True =
       (Inr (returned_for (query_data_from_source env start_time end_time)), fs', tr) \<and>
     source_calls tr = [(start_time, end_time)] \<and>
     (\<forall>df. query_data_from_source env start_time end_time = Inr (Some df) \<and> \<not> df_empty df \<longrightarrow>
        writes tr = [(filename env start_time end_time, df)] \<and>
        (\<forall>b. to_excel env df = Written b \<and> lookup fs (filename env start_time end_time) \<noteq> Some Subdir \<longrightarrow>
           lookup fs' (filename env start_time end_time) = Some (File b)))"
proof -
  let ?f = "filename env start_time end_time"
  from mkdir_Inr [OF assms(1)] obtain es where es: "d = Directory es" by blast
  obtain r fs' tr where rq: "run_query env (Directory es) start_time end_time ?f [] = (r, fs', tr)"
    by (cases "run_query env (Directory es) start_time end_time ?f []")
  note sh = run_query_shape [OF rq]
  have q: "query_data_with_cache env fs start_time end_time True = (r, fs', tr)"
    using query_forced [OF assms] rq by (simp add: es)
  have w: "\<forall>df. query_data_from_source env start_time end_time = Inr (Some df) \<and> \<not> df_empty df \<longrightarrow>
        writes tr = [(?f, df)] \<and>
        (\<forall>b. to_excel env df = Written b \<and> lookup fs ?f \<noteq> Some Subdir \<longrightarrow>
           lookup fs' ?f = Some (File b))"
  proof (intro allI impI conjI)
    fix df
    assume df: "query_data_from_source env start_time end_time = Inr (Some df) \<and> \<not> df_empty df"
    with sh show "writes tr = [(?f, df)]" by (auto simp: returned_for_def)
  next
    fix df b
    assume df: "query_data_from_source env start_time end_time = Inr (Some df) \<and> \<not> df_empty df"
      and b: "to_excel env df = Written b \<and> lookup fs ?f \<noteq> Some Subdir"
    have nsub: "lookup (Directory es) ?f \<noteq> Some Subdir"
      using b lookup_mkdir [OF assms(1), of ?f] by (simp add: es)
    from run_query_stored [of env start_time end_time df b es ?f "[]"] df b nsub rq
    have "fs' = store (Directory es) ?f (File b)" by simp
    then show "lookup fs' ?f = Some (File b)" by (simp add: lookup_store)
  qed
  from sh have r: "r = Inr (returned_for (query_data_from_source env start_time end_time))"
    and sc: "source_calls tr = [(start_time, end_time)]" by simp_all
  from q [unfolded r] sc w show ?thesis by blast
qed

theorem force_refresh_queries_source_witness:
  "mkdir stale_dir = Inr stale_dir \<and>
   file_exists example_env stale_dir
     (filename example_env (str ''2024-01-01'') (str ''2024-01-10'')) = Inr True \<and>
   pd_read_excel example_env stale_dir
     (filename example_env (str ''2024-01-01'') (str ''2024-01-10'')) = Inr old_table \<and>
   lookup stale_dir (filename example_env (str ''2024-01-01'') (str ''2024-01-10'')) =
     Some (File ''PK-old'') \<and>
   (\<exists>fs' tr.
     query_data_with_cache example_env stale_dir (str ''2024-01-01'') (str ''2024-01-10'') True =
       (Inr (returned_for (query_data_from_source example_env (str ''2024-01-01'') (str ''2024-01-10''))),
        fs', tr) \<and>
     source_calls tr = [(str ''2024-01-01'', str ''2024-01-10'')] \<and>
     writes tr = [(filename example_env (str ''2024-01-01'') (str ''2024-01-10''), example_table)] \<and>
     lookup fs' (filename example_env (str ''2024-01-01'') (str ''2024-01-10'')) = Some (File ''PK''))"
proof -
  have a: "mkdir stale_dir = Inr stale_dir"
    by (simp add: mkdir_def stale_dir_def)
  have p: "file_exists example_env stale_dir
      (filename example_env (str ''2024-01-01'') (str ''2024-01-10'')) = Inr True"
    unfolding filename_example
    by (simp add: file_exists_def lookup_def stale_dir_def example_env_def)
  have o: "pd_read_excel example_env stale_dir
      (filename example_env (str ''2024-01-01'') (str ''2024-01-10'')) = Inr old_table"
    unfolding filename_example
    by (simp add: pd_read_excel_def lookup_def stale_dir_def example_env_def)
  have l: "lookup stale_dir (filename example_env (str ''2024-01-01'') (str ''2024-01-10'')) =
      Some (File ''PK-old'')"
    unfolding filename_example by (simp add: lookup_def stale_dir_def)
  have d: "query_data_from_source example_env (str ''2024-01-01'') (str ''2024-01-10'') = Inr (Some example_table)"
    by (simp add: example_env_def)
  have e: "\<not> df_empty example_table"
    by (simp add: df_empty_def example_table_def)
  have f: "to_excel example_env example_table = Written ''PK''"
    by (simp add: example_env_def)
  have g: "lookup stale_dir (filename example_env (str ''2024-01-01'') (str ''2024-01-10'')) \<noteq> Some Subdir"
    using l by simp
  from a p o l d e f g
    force_refresh_queries_source [OF a p]
  show ?thesis by blast
qed

text \<open>
  The claim as it is written fails in three places. Where the write fails, the call
  returns the new table and the artifact keeps its older, valid content. Where the
  parent of the cache directory is missing, \<^verbatim>\<open>mkdir\<close> raises before the source query is
  called. And where the file name of the range is longer than the filesystem takes (a
  start of 250 digits), the test of line 42 raises in a directory that exists, before
  the source query is called.
\<close>

theorem force_refresh_counterexample:
  "pd_read_excel stale_env stale_dir example_file = Inr old_table \<and>
   query_data_from_source stale_env (str ''2024-01-01'') (str ''2024-01-10'') = Inr (Some example_table) \<and>
   \<not> df_empty example_table \<and>
   query_data_with_cache stale_env stale_dir (str ''2024-01-01'') (str ''2024-01-10'') True =
     (Inr (Some example_table), stale_dir,
      [Log INFO (Querying (str ''2024-01-01'') (str ''2024-01-10'')),
       Source (str ''2024-01-01'') (str ''2024-01-10''),
       To_excel example_file example_table,
       Log ERROR (Save_failed (Failure (str ''Permission denied'')))]) \<and>
   lookup stale_dir example_file = Some (File ''PK-old'') \<and>
   query_data_with_cache example_env Orphan (str ''2024-01-01'') (str ''2024-01-10'') True =
     (Inl FileNotFoundError, Orphan, []) \<and>
   query_data_with_cache posix_env (Directory []) long_start (str ''2024-01-10'') True =
     (Inl (OSError (str ''File name too long'')), Directory [], []) \<and>
   source_calls [] = []"
proof -
  have a: "pd_read_excel stale_env stale_dir example_file = Inr old_table"
    by (simp add: pd_read_excel_def lookup_def stale_dir_def stale_env_def example_env_def)
  have b: "query_data_from_source stale_env (str ''2024-01-01'') (str ''2024-01-10'') = Inr (Some example_table)"
    by (simp add: stale_env_def example_env_def)
  have c: "\<not> df_empty example_table"
    by (simp add: df_empty_def example_table_def)
  have d: "lookup stale_dir example_file = Some (File ''PK-old'')"
    by (simp add: lookup_def stale_dir_def)
  from a b c d stale_forced_query orphan_query long_name_query show ?thesis by simp
qed

section \<open>Matching names\<close>















section \<open>The removals of \<^verbatim>\<open>clear_cache\<close>\<close>

















lemma mixed_clear_2024:
  "clear_cache example_env mixed_dir (Some (str ''2024-01'')) =
     (Returns, Directory [(str ''2023-12-01_2023-12-31.xlsx'', File ''PK'')],
      [Unlink example_file, Log INFO (Deleted example_file),
       Unlink (str ''notes-2024-01.txt''), Log INFO (Deleted (str ''notes-2024-01.txt''))])"
  by code_simp

lemma mixed_list: "list_cache_files mixed_dir = Inr [example_file, str ''2023-12-01_2023-12-31.xlsx'']"
  by code_simp












text \<open>
  Claim C7 says that \<^verbatim>\<open>clear_cache\<close> with a pattern deletes cached artifacts only and
  leaves every other file intact. The branch without a pattern and \<^verbatim>\<open>list_cache_files\<close>
  keep to \<^verbatim>\<open>*.xlsx\<close>; the branch with a pattern does not: in a directory that holds
  two artifacts and the text file \<^verbatim>\<open>notes-2024-01.txt\<close>, which \<^verbatim>\<open>list_cache_files\<close>
  does not list, the pattern \<^verbatim>\<open>2024-01\<close> removes the text file with the artifact.
\<close>

theorem clear_pattern_removes_other_file:
  "list_cache_files mixed_dir = Inr [example_file, str ''2023-12-01_2023-12-31.xlsx''] \<and>
   lookup mixed_dir (str ''notes-2024-01.txt'') = Some (File ''memo'') \<and>
   clear_cache example_env mixed_dir (Some (str ''2024-01'')) =
     (Returns, Directory [(str ''2023-12-01_2023-12-31.xlsx'', File ''PK'')],
      [Unlink example_file, Log INFO (Deleted example_file),
       Unlink (str ''notes-2024-01.txt''), Log INFO (Deleted (str ''notes-2024-01.txt''))])"
proof -
  have "lookup mixed_dir (str ''notes-2024-01.txt'') = Some (File ''memo'')"
    by code_simp
  with mixed_list mixed_clear_2024 show ?thesis by simp
qed




end
